theory Spec2Isabelle
  imports Main "HOL-Library.Sublist"
begin

section \<open>Mail merge: the send pipeline of send\_mail\_merge.py\<close>

text \<open>
  A shallow embedding of the send pipeline of \<^verbatim>\<open>send_mail_merge.py\<close>: the string
  operations it relies on, the template renderer, the message builder, the delivery
  engine with its retry policy, and the orchestrating \<^verbatim>\<open>main\<close>.

  Text is a \<open>string\<close> with one \<open>char\<close> per code point, so the model covers Python
  strings whose code points are below 256 (Latin-1).  Everything outside the program
  (the SMTP relay, the resolver, the clock, the file system, the HTML parser) is an
  explicit parameter, and every effect of the program on the outside is an entry of a
  trace that the functions thread through.
\<close>

subsection \<open>Python string operations\<close>

text \<open>\<^verbatim>\<open>sub in s\<close> is \<^const>\<open>sublist\<close>, \<^verbatim>\<open>s.startswith(p)\<close> is \<^const>\<open>prefix\<close>.\<close>

definition lower_char :: "char \<Rightarrow> char" where
  "lower_char c =
     (let n = (of_char c :: nat)
      in if (65 \<le> n \<and> n \<le> 90) \<or> (192 \<le> n \<and> n \<le> 222 \<and> n \<noteq> 215)
         then char_of (n + 32) else c)"

definition lower :: "string \<Rightarrow> string" where
  "lower s = map lower_char s"

text \<open>
  \<^verbatim>\<open>str.upper\<close>: the letters a-z and the Latin-1 letters U+00E0..U+00FE (without the
  division sign U+00F7) move down by 32, the sharp s U+00DF becomes \<^verbatim>\<open>SS\<close>.  The upper-case
  forms of U+00B5 and U+00FF lie outside Latin-1; the model leaves these two characters
  as they are, which no comparison with an ASCII literal can observe.
\<close>

definition upper_char :: "char \<Rightarrow> string" where
  "upper_char c =
     (let n = (of_char c :: nat)
      in if (97 \<le> n \<and> n \<le> 122) \<or> (224 \<le> n \<and> n \<le> 254 \<and> n \<noteq> 247)
         then [char_of (n - 32)]
         else if n = 223 then ''SS'' else [c])"

definition upper :: "string \<Rightarrow> string" where
  "upper s = concat (map upper_char s)"

text \<open>\<^verbatim>\<open>str.isspace\<close> on one character, for the code points below 256.\<close>

definition is_space :: "char \<Rightarrow> bool" where
  "is_space c =
     (let n = (of_char c :: nat)
      in (9 \<le> n \<and> n \<le> 13) \<or> (28 \<le> n \<and> n \<le> 32) \<or> n = 133 \<or> n = 160)"

definition strip :: "string \<Rightarrow> string" where
  "strip s = rev (dropWhile is_space (rev (dropWhile is_space s)))"

text \<open>\<^verbatim>\<open>str(n)\<close> for an integer: decimal digits, a minus sign for negatives.\<close>

definition digit_char :: "nat \<Rightarrow> char" where
  "digit_char d = char_of (48 + d)"

function str_nat :: "nat \<Rightarrow> string" where
  "str_nat n = (if n < 10 then [digit_char n] else str_nat (n div 10) @ [digit_char (n mod 10)])"
  by pat_completeness auto
termination
  by (relation "measure id") auto

declare str_nat.simps [simp del]

definition str_int :: "int \<Rightarrow> string" where
  "str_int i = (if i < 0 then CHR ''-'' # str_nat (nat (- i)) else str_nat (nat i))"

text \<open>
  \<^verbatim>\<open>s.replace(old, new)\<close>: scan from the left, replace each occurrence found and go on
  behind it (occurrences never overlap).  With an empty \<^verbatim>\<open>old\<close> Python puts \<^verbatim>\<open>new\<close>
  before every character and at the end.
\<close>

function replace_from :: "string \<Rightarrow> string \<Rightarrow> string \<Rightarrow> string" where
  "replace_from old new [] = []"
| "replace_from old new (c # cs) =
     (if old \<noteq> [] \<and> prefix old (c # cs)
      then new @ replace_from old new (drop (length old) (c # cs))
      else c # replace_from old new cs)"
  by pat_completeness auto
termination
  by (relation "measure (\<lambda>(old, new, s). length s)") (auto simp: neq_Nil_conv)

definition replace :: "string \<Rightarrow> string \<Rightarrow> string \<Rightarrow> string" where
  "replace s old new =
     (if old = [] then new @ concat (map (\<lambda>c. c # new) s) else replace_from old new s)"

subsection \<open>Template renderer\<close>

text \<open>
  \<^verbatim>\<open>render_template\<close>.  A context is a Python dict: its items in insertion order, the
  keys distinct.  The values are strings in every call the program makes, so
  \<^verbatim>\<open>str(value)\<close> is the value itself.
\<close>

type_synonym render_context = "(string \<times> string) list"

definition placeholder :: "string \<Rightarrow> string" where
  "placeholder key = ''{{'' @ key @ ''}}''"

fun render_items :: "string \<Rightarrow> render_context \<Rightarrow> string" where
  "render_items result [] = result"
| "render_items result ((key, val) # items) =
     render_items (replace result (placeholder key) val) items"

definition render_template :: "string \<Rightarrow> render_context \<Rightarrow> string" where
  "render_template template ctx = render_items template ctx"









subsection \<open>The outside world\<close>

record env_vars =
  smtp_host :: string
  smtp_port :: string
  smtp_user :: string
  smtp_pass :: string
  smtp_ssl :: "string option"
  sender_name :: string
  sender_email :: string

text \<open>
  An address header: \<^verbatim>\<open>formataddr((name, addr))\<close> gives the display-name form when the
  name is non-empty and the bare address otherwise.
\<close>

datatype address = Bare string | Named string string

definition formataddr :: "string \<Rightarrow> string \<Rightarrow> address" where
  "formataddr name addr = (if name \<noteq> [] then Named name addr else Bare addr)"

record message =
  msg_subject :: string
  msg_from :: address
  msg_to :: address
  msg_plain :: string
  msg_html :: string
  msg_attachment :: "(string \<times> string) option"

text \<open>
  What one SMTP session of \<^verbatim>\<open>send_email\<close> can end with: each constructor is the
  \<^verbatim>\<open>except\<close> clause that catches the exception, in the order of the clauses, and carries
  \<^verbatim>\<open>str(e)\<close>; \<open>Uncaught\<close> is any exception that none of the clauses catches
  (a \<^verbatim>\<open>TimeoutError\<close>, a port that is no number) and that leaves \<^verbatim>\<open>send_email\<close>.
\<close>

datatype smtp_error =
    SMTPAuthenticationError string
  | SMTPRecipientsRefused string
  | SMTPSenderRefused string
  | SSLError string
  | GaiError string
  | ConnectionError string
  | SMTPException string
  | Uncaught string

datatype exn = UncaughtError string | ValueError string

text \<open>The three renderings of one reading of \<^verbatim>\<open>datetime.now()\<close> that the program uses.\<close>

record moment =
  isoformat :: string
  strftime_dmy :: string
  strftime_ymd_hms :: string

record contact =
  email :: string
  hotel_name :: string
  city :: string
  contact_name :: string
  contact_notes :: string
  status :: string
  sent_at :: string

record log_entry =
  log_email :: string
  log_hotel_name :: string
  log_city :: string
  log_contact_name :: string
  log_status :: string
  log_info :: string
  log_timestamp :: string

text \<open>
  The effects of the program, in the order they happen: an SMTP session opened for a
  message (with the implicit-TLS flag), a \<^verbatim>\<open>time.sleep\<close>, a row appended to the log
  file, the contacts file rewritten.  Printing to the terminal is not recorded.
\<close>

datatype event =
    SmtpSession bool env_vars message
  | Sleep int
  | LogRow string log_entry
  | SaveContacts string "contact list"

record world =
  trace :: "event list"
  ticks :: nat

text \<open>
  The collaborators: the relay's answer to the k-th session (counted from 0 over the
  whole run), whether \<^verbatim>\<open>socket.gethostbyname\<close> resolves a name, the k-th reading of the
  clock, \<^verbatim>\<open>html_to_plain_text\<close>, and the file system (\<^verbatim>\<open>os.path.exists\<close> and the bytes
  of a file).
\<close>

record outside =
  smtp :: "nat \<Rightarrow> env_vars \<Rightarrow> message \<Rightarrow> smtp_error option"
  resolves :: "string \<Rightarrow> bool"
  clock :: "nat \<Rightarrow> moment"
  html_to_plain_text :: "string \<Rightarrow> string"
  path_exists :: "string \<Rightarrow> bool"
  read_bytes :: "string \<Rightarrow> string"

fun is_session :: "event \<Rightarrow> bool" where
  "is_session (SmtpSession _ _ _) = True"
| "is_session _ = False"

definition sessions :: "world \<Rightarrow> nat" where
  "sessions w = length (filter is_session (trace w))"

definition emit :: "event \<Rightarrow> world \<Rightarrow> world" where
  "emit e w = w\<lparr>trace := trace w @ [e]\<rparr>"

definition now :: "outside \<Rightarrow> world \<Rightarrow> moment \<times> world" where
  "now out w = (clock out (ticks w), w\<lparr>ticks := Suc (ticks w)\<rparr>)"

text \<open>\<^verbatim>\<open>time.sleep\<close> raises \<^verbatim>\<open>ValueError\<close> on a negative argument.\<close>

definition sleep :: "int \<Rightarrow> world \<Rightarrow> exn + world" where
  "sleep secs w =
     (if secs < 0 then Inl (ValueError ''sleep length must be non-negative'')
      else Inr (emit (Sleep secs) w))"

subsection \<open>Delivery engine\<close>

definition autenticacion :: string where
  "autenticacion = ''autenticaci'' @ [char_of (243 :: nat)] @ ''n''"

definition conexion :: string where
  "conexion = ''conexi'' @ [char_of (243 :: nat)] @ ''n''"

definition resolucion :: string where
  "resolucion = ''resoluci'' @ [char_of (243 :: nat)] @ ''n''"

fun describe_failure :: "smtp_error \<Rightarrow> exn + bool \<times> string" where
  "describe_failure (SMTPAuthenticationError e) =
     Inr (False, ''Error de '' @ autenticacion @ '' SMTP: '' @ e)"
| "describe_failure (SMTPRecipientsRefused e) =
     Inr (False, ''Error: destinatarios rechazados: '' @ e)"
| "describe_failure (SMTPSenderRefused e) = Inr (False, ''Error: remitente rechazado: '' @ e)"
| "describe_failure (SSLError e) = Inr (False, ''Error de SSL: '' @ e)"
| "describe_failure (GaiError e) = Inr (False, ''Error de '' @ resolucion @ '' DNS: '' @ e)"
| "describe_failure (ConnectionError e) = Inr (False, ''Error de '' @ conexion @ '': '' @ e)"
| "describe_failure (SMTPException e) = Inr (False, ''Error SMTP: '' @ e)"
| "describe_failure (Uncaught e) = Inl (UncaughtError e)"

text \<open>\<^verbatim>\<open>env_vars.get("SMTP_SSL", "true").lower() == "true"\<close>\<close>

definition use_ssl :: "env_vars \<Rightarrow> bool" where
  "use_ssl env = (lower (case smtp_ssl env of None \<Rightarrow> ''true'' | Some v \<Rightarrow> v) = ''true'')"

definition send_email ::
  "outside \<Rightarrow> env_vars \<Rightarrow> message \<Rightarrow> bool \<Rightarrow> world \<Rightarrow> (exn + bool \<times> string) \<times> world"
where
  "send_email out env msg dry_run w =
     (if dry_run then (Inr (True, ''DRY RUN - Email not sent''), w)
      else
        let w1 = emit (SmtpSession (use_ssl env) env msg) w
        in case smtp out (sessions w) env msg of
             None \<Rightarrow> (Inr (True, ''Email sent successfully''), w1)
           | Some err \<Rightarrow> (describe_failure err, w1))"

text \<open>
  The attempt loop of \<^verbatim>\<open>send_email_with_retry\<close> over the remaining values of
  \<^verbatim>\<open>range(max_retries)\<close>.  An iteration returns, lets an exception through, or goes
  on; the loop running out of attempts is \<open>FellThrough\<close>.
\<close>

datatype loop_exit = Returned "bool \<times> string" | Raised exn | FellThrough

text \<open>The two tests of the loop that end it on a failure without another attempt.\<close>

definition not_retried :: "string \<Rightarrow> bool" where
  "not_retried info =
     ((sublist ''Authentication'' info \<or> sublist ''auth'' (lower info)) \<or>
      (sublist ''recipient'' (lower info) \<or> sublist ''address'' (lower info)))"

fun retry_loop ::
  "outside \<Rightarrow> env_vars \<Rightarrow> message \<Rightarrow> bool \<Rightarrow> int \<Rightarrow> nat list \<Rightarrow> world \<Rightarrow> loop_exit \<times> world"
where
  "retry_loop out env msg dry_run max_retries [] w = (FellThrough, w)"
| "retry_loop out env msg dry_run max_retries (attempt # rest) w =
     (case send_email out env msg dry_run w of
        (Inl e, w1) \<Rightarrow> (Raised e, w1)
      | (Inr (success, info), w1) \<Rightarrow>
          if success then (Returned (success, info), w1)
          else if sublist ''Authentication'' info \<or> sublist ''auth'' (lower info)
          then (Returned (success, info), w1)
          else if sublist ''recipient'' (lower info) \<or> sublist ''address'' (lower info)
          then (Returned (success, info), w1)
          else if int attempt < max_retries - 1
          then (case sleep (5 * 2 ^ attempt) w1 of
                  Inl e \<Rightarrow> (Raised e, w1)
                | Inr w2 \<Rightarrow> retry_loop out env msg dry_run max_retries rest w2)
          else (Returned (False, ''Failed after '' @ str_int max_retries @ '' attempts: '' @ info),
                w1))"

definition send_email_with_retry ::
  "outside \<Rightarrow> env_vars \<Rightarrow> message \<Rightarrow> bool \<Rightarrow> int \<Rightarrow> world \<Rightarrow> (exn + bool \<times> string) \<times> world"
where
  "send_email_with_retry out env msg dry_run max_retries w =
     (case retry_loop out env msg dry_run max_retries [0 ..< nat max_retries] w of
        (Returned r, w') \<Rightarrow> (Inr r, w')
      | (Raised e, w') \<Rightarrow> (Inl e, w')
      | (FellThrough, w') \<Rightarrow> (Inr (False, ''Max retries exceeded''), w'))"


subsection \<open>Message builder\<close>

text \<open>\<^verbatim>\<open>os.path.basename\<close>: what follows the last slash.\<close>

definition basename :: "string \<Rightarrow> string" where
  "basename p = rev (takeWhile (\<lambda>c. c \<noteq> CHR ''/'') (rev p))"

definition create_email_message ::
  "outside \<Rightarrow> env_vars \<Rightarrow> string \<Rightarrow> string \<Rightarrow> string \<Rightarrow> string \<Rightarrow> string \<Rightarrow> string option
     \<Rightarrow> message"
where
  "create_email_message out env subject html_body plain_body to_email to_name attachment_path =
     \<lparr> msg_subject = subject,
       msg_from = formataddr (sender_name env) (sender_email env),
       msg_to = (if to_name \<noteq> [] then formataddr to_name to_email else Bare to_email),
       msg_plain = plain_body,
       msg_html = html_body,
       msg_attachment =
         (case attachment_path of
            None \<Rightarrow> None
          | Some path \<Rightarrow>
              if path \<noteq> [] \<and> path_exists out path
              then Some (basename path, read_bytes out path) else None) \<rparr>"

subsection \<open>Contact filtering\<close>

text \<open>
  \<^verbatim>\<open>validate_email\<close>.  The pattern
  \<^verbatim>\<open>^[a-zA-Z0-9._%+-]+@[a-zA-Z0-9.-]+\.[a-zA-Z]{2,}$\<close> under \<^verbatim>\<open>re.match\<close>: a non-empty run
  of local characters up to the first \<^verbatim>\<open>@\<close>; then domain characters, a dot and at least
  two letters up to the end, where \<^verbatim>\<open>$\<close> also matches before one final newline.  The
  letters after the last dot are the longest run of letters at the end.
\<close>

definition is_alpha :: "char \<Rightarrow> bool" where
  "is_alpha c =
     (let n = (of_char c :: nat) in (97 \<le> n \<and> n \<le> 122) \<or> (65 \<le> n \<and> n \<le> 90))"

definition is_alnum :: "char \<Rightarrow> bool" where
  "is_alnum c = (let n = (of_char c :: nat) in is_alpha c \<or> (48 \<le> n \<and> n \<le> 57))"

definition local_char :: "char \<Rightarrow> bool" where
  "local_char c = (is_alnum c \<or> c \<in> set ''._%+-'')"

definition domain_char :: "char \<Rightarrow> bool" where
  "domain_char c = (is_alnum c \<or> c \<in> set ''.-'')"

definition domain_matches :: "string \<Rightarrow> bool" where
  "domain_matches d =
     (let d0 = (if d \<noteq> [] \<and> last d = CHR 0x0A then butlast d else d);
          tld = takeWhile is_alpha (rev d0);
          front = dropWhile is_alpha (rev d0)
      in 2 \<le> length tld \<and>
         (case front of
            [] \<Rightarrow> False
          | c # name \<Rightarrow> c = CHR ''.'' \<and> name \<noteq> [] \<and> list_all domain_char name))"

definition pattern_matches :: "string \<Rightarrow> bool" where
  "pattern_matches e =
     (takeWhile local_char e \<noteq> [] \<and>
      (case dropWhile local_char e of
         [] \<Rightarrow> False
       | c # d \<Rightarrow> c = CHR ''@'' \<and> domain_matches d))"

text \<open>
  After a match the address has exactly one \<^verbatim>\<open>@\<close>, so \<^verbatim>\<open>email.split("@")[1]\<close> is what
  follows it, and the \<^verbatim>\<open>IndexError\<close> branch is never taken.
\<close>

definition validate_email :: "outside \<Rightarrow> string \<Rightarrow> bool" where
  "validate_email out e =
     (if \<not> pattern_matches e then False
      else resolves out (drop 1 (dropWhile (\<lambda>c. c \<noteq> CHR ''@'') e)))"

record args =
  arg_csv :: string
  arg_attachment :: "string option"
  arg_sleep :: int
  arg_dry_run :: bool
  arg_max :: "int option"
  arg_from_row :: int
  arg_update_contacts :: bool
  arg_log :: string

definition log_to_file ::
  "string \<Rightarrow> string \<Rightarrow> string \<Rightarrow> string \<Rightarrow> string \<Rightarrow> string \<Rightarrow> string \<Rightarrow> string \<Rightarrow> world
     \<Rightarrow> world"
where
  "log_to_file log_path em hotel cty name st info timestamp w =
     emit (LogRow log_path
            \<lparr> log_email = em, log_hotel_name = hotel, log_city = cty, log_contact_name = name,
              log_status = st, log_info = info, log_timestamp = timestamp \<rparr>) w"

text \<open>\<^verbatim>\<open>args.max and len(contacts_to_send) >= args.max\<close>: an absent or zero limit is falsy.\<close>

definition max_reached :: "args \<Rightarrow> (nat \<times> contact) list \<Rightarrow> bool" where
  "max_reached a contacts_to_send =
     (case arg_max a of
        None \<Rightarrow> False
      | Some m \<Rightarrow> m \<noteq> 0 \<and> m \<le> int (length contacts_to_send))"

definition skip_status :: "contact \<Rightarrow> bool" where
  "skip_status c = (upper (strip (status c)) \<in> set [''SENT'', ''SKIP''])"

text \<open>
  The filtering loop of \<^verbatim>\<open>main\<close> over the rows of \<^verbatim>\<open>enumerate(contacts)\<close> that are still
  to come, with the contacts selected so far.
\<close>

fun filter_loop ::
  "outside \<Rightarrow> args \<Rightarrow> (nat \<times> contact) list \<Rightarrow> (nat \<times> contact) list \<Rightarrow> world
     \<Rightarrow> (nat \<times> contact) list \<times> world"
where
  "filter_loop out a [] contacts_to_send w = (contacts_to_send, w)"
| "filter_loop out a ((idx, c) # rows) contacts_to_send w =
     (if int idx < arg_from_row a then filter_loop out a rows contacts_to_send w
      else if skip_status c then filter_loop out a rows contacts_to_send w
      else if \<not> validate_email out (email c)
      then (case now out w of
              (t, w1) \<Rightarrow>
                filter_loop out a rows contacts_to_send
                  (log_to_file (arg_log a) (email c) (hotel_name c) (city c) (contact_name c)
                     ''ERROR'' ''Invalid email format'' (isoformat t) w1))
      else if max_reached a (contacts_to_send @ [(idx, c)])
      then (contacts_to_send @ [(idx, c)], w)
      else filter_loop out a rows (contacts_to_send @ [(idx, c)]) w)"

definition filter_contacts ::
  "outside \<Rightarrow> args \<Rightarrow> contact list \<Rightarrow> world \<Rightarrow> (nat \<times> contact) list \<times> world"
where
  "filter_contacts out a contacts w = filter_loop out a (enumerate 0 contacts) [] w"

subsection \<open>Merge orchestrator\<close>

record stats =
  sent :: nat
  failed :: nat
  skipped :: nat

definition generic_greeting :: string where
  "generic_greeting = ''Responsabile delle risorse umane''"

text \<open>
  The name used for one contact: the trimmed \<^verbatim>\<open>contact_name\<close>, or the generic greeting
  when that is empty.
\<close>

definition greeting_name :: "contact \<Rightarrow> string" where
  "greeting_name c =
     (let name = strip (contact_name c) in if name = [] then generic_greeting else name)"

definition contact_context :: "env_vars \<Rightarrow> string \<Rightarrow> contact \<Rightarrow> render_context" where
  "contact_context env today c =
     [(''contact_name'', greeting_name c),
      (''hotel_name'', hotel_name c),
      (''city'', city c),
      (''sender_name'', sender_name env),
      (''today'', today)]"

text \<open>Rendering and building the message of one contact, as the body of the send loop does.\<close>

definition contact_message ::
  "outside \<Rightarrow> args \<Rightarrow> env_vars \<Rightarrow> string \<Rightarrow> string \<Rightarrow> string \<Rightarrow> contact \<Rightarrow> message"
where
  "contact_message out a env subject_template html_template today c =
     (let ctx = contact_context env today c;
          subject = render_template subject_template ctx;
          html_body = render_template html_template ctx;
          plain_body = html_to_plain_text out html_body
      in create_email_message out env subject html_body plain_body (email c)
           (if greeting_name c \<noteq> generic_greeting then greeting_name c else [])
           (arg_attachment a))"

record run_state =
  contacts :: "contact list"
  run_stats :: stats
  run_world :: world

text \<open>
  \<^verbatim>\<open>if args.update_contacts:\<close> in the success branch: the row of the contact gets the
  status \<^verbatim>\<open>SENT\<close> and a fresh reading of the clock as \<^verbatim>\<open>sent_at\<close>.  \<open>original_idx\<close>
  comes from \<^verbatim>\<open>enumerate(contacts)\<close> and is always in range.
\<close>

definition update_contact ::
  "outside \<Rightarrow> args \<Rightarrow> nat \<Rightarrow> contact list \<Rightarrow> world \<Rightarrow> contact list \<times> world"
where
  "update_contact out a original_idx cs w =
     (if arg_update_contacts a
      then (case now out w of
              (t, w') \<Rightarrow>
                (cs[original_idx :=
                      (cs ! original_idx)\<lparr>status := ''SENT'', sent_at := strftime_ymd_hms t\<rparr>],
                 w'))
      else (cs, w))"

text \<open>
  What the send loop does with the outcome of one contact: count it, update the row,
  write the log row.
\<close>

definition record_outcome ::
  "outside \<Rightarrow> args \<Rightarrow> nat \<Rightarrow> contact \<Rightarrow> bool \<times> string \<Rightarrow> run_state \<Rightarrow> world \<Rightarrow> run_state"
where
  "record_outcome out a original_idx c r st w1 =
     (case r of
        (success, info) \<Rightarrow>
          (case now out w1 of
             (timestamp, w2) \<Rightarrow>
               if success
               then
                 (case update_contact out a original_idx (contacts st) w2 of
                    (cs, w3) \<Rightarrow>
                      \<lparr> contacts = cs,
                        run_stats = (run_stats st)\<lparr>sent := sent (run_stats st) + 1\<rparr>,
                        run_world =
                          log_to_file (arg_log a) (email c) (hotel_name c) (city c)
                            (greeting_name c)
                            (if \<not> arg_dry_run a then ''SENT'' else ''DRY_RUN'')
                            info (isoformat timestamp) w3 \<rparr>)
               else
                 \<lparr> contacts = contacts st,
                   run_stats = (run_stats st)\<lparr>failed := failed (run_stats st) + 1\<rparr>,
                   run_world =
                     log_to_file (arg_log a) (email c) (hotel_name c) (city c)
                       (greeting_name c) ''ERROR'' info (isoformat timestamp) w2 \<rparr>))"

text \<open>
  The send loop of \<^verbatim>\<open>main\<close> over the rest of \<^verbatim>\<open>enumerate(contacts_to_send, 1)\<close>;
  \<open>n_to_send\<close> is \<^verbatim>\<open>len(contacts_to_send)\<close>.  An exception that leaves
  \<^verbatim>\<open>send_email_with_retry\<close> or \<^verbatim>\<open>time.sleep\<close> ends the run where it is raised.
\<close>

fun send_loop ::
  "outside \<Rightarrow> args \<Rightarrow> env_vars \<Rightarrow> string \<Rightarrow> string \<Rightarrow> string \<Rightarrow> nat
     \<Rightarrow> (nat \<times> nat \<times> contact) list \<Rightarrow> run_state \<Rightarrow> exn option \<times> run_state"
where
  "send_loop out a env subject_template html_template today n_to_send [] st = (None, st)"
| "send_loop out a env subject_template html_template today n_to_send
     ((idx, original_idx, c) # rest) st =
     (let msg = contact_message out a env subject_template html_template today c
      in case send_email_with_retry out env msg (arg_dry_run a) 3 (run_world st) of
           (Inl e, w1) \<Rightarrow> (Some e, st\<lparr>run_world := w1\<rparr>)
         | (Inr r, w1) \<Rightarrow>
             let st1 = record_outcome out a original_idx c r st w1
             in if idx < n_to_send
                then (case sleep (arg_sleep a) (run_world st1) of
                        Inl e \<Rightarrow> (Some e, st1)
                      | Inr w4 \<Rightarrow>
                          send_loop out a env subject_template html_template today n_to_send
                            rest (st1\<lparr>run_world := w4\<rparr>))
                else send_loop out a env subject_template html_template today n_to_send
                       rest st1)"

text \<open>
  How a run ends: \<^verbatim>\<open>sys.exit(n)\<close>, falling off the end of \<^verbatim>\<open>main\<close> (exit status 0),
  or an exception nobody catches (a traceback and exit status 1).
\<close>

datatype ending = Exit int | Completed | Crashed exn

fun exit_status :: "ending \<Rightarrow> int" where
  "exit_status (Exit n) = n"
| "exit_status Completed = 0"
| "exit_status (Crashed e) = 1"

record run =
  run_ending :: ending
  final :: run_state

text \<open>
  \<^verbatim>\<open>main\<close> from the point where the configuration, the two templates and the contacts
  have been loaded (the loaders leave with \<^verbatim>\<open>sys.exit(1)\<close> on their own).
\<close>

definition main ::
  "outside \<Rightarrow> args \<Rightarrow> env_vars \<Rightarrow> string \<Rightarrow> string \<Rightarrow> contact list \<Rightarrow> world \<Rightarrow> run"
where
  "main out a env subject_template html_template loaded w0 =
     (let st0 = \<lparr> contacts = loaded,
                  run_stats = \<lparr> sent = 0, failed = 0, skipped = 0 \<rparr>,
                  run_world = w0 \<rparr>
      in if (case arg_attachment a of
               None \<Rightarrow> False
             | Some path \<Rightarrow> path \<noteq> [] \<and> \<not> path_exists out path)
         then \<lparr> run_ending = Exit 1, final = st0 \<rparr>
         else
           case filter_contacts out a loaded w0 of
             (contacts_to_send, w1) \<Rightarrow>
               if contacts_to_send = []
               then \<lparr> run_ending = Exit 0, final = st0\<lparr>run_world := w1\<rparr> \<rparr>
               else
                 case now out w1 of
                   (t, w2) \<Rightarrow>
                     (case send_loop out a env subject_template html_template (strftime_dmy t)
                             (length contacts_to_send)
                             (enumerate 1 contacts_to_send)
                             (st0\<lparr>run_world := w2\<rparr>) of
                        (Some e, st) \<Rightarrow> \<lparr> run_ending = Crashed e, final = st \<rparr>
                      | (None, st) \<Rightarrow>
                          if arg_update_contacts a \<and> 0 < sent (run_stats st)
                          then \<lparr> run_ending = Completed,
                                 final = st\<lparr>run_world :=
                                   emit (SaveContacts (arg_csv a) (contacts st)) (run_world st)\<rparr> \<rparr>
                          else \<lparr> run_ending = Completed, final = st \<rparr>))"



subsection \<open>Example values\<close>

definition example_env :: env_vars where
  "example_env =
     \<lparr> smtp_host = ''smtp.gmail.com'', smtp_port = ''465'', smtp_user = ''me@gmail.com'',
       smtp_pass = ''secret'', smtp_ssl = Some ''true'', sender_name = ''Gonzalo'',
       sender_email = ''me@gmail.com'' \<rparr>"

definition example_msg :: message where
  "example_msg =
     \<lparr> msg_subject = ''Hello'', msg_from = Named ''Gonzalo'' ''me@gmail.com'',
       msg_to = Bare ''info@hotel.example'', msg_plain = ''Hi'', msg_html = ''<p>Hi</p>'',
       msg_attachment = None \<rparr>"

definition example_moment :: moment where
  "example_moment =
     \<lparr> isoformat = ''2025-05-10T09:30:00'', strftime_dmy = ''10/05/2025'',
       strftime_ymd_hms = ''2025-05-10 09:30:00'' \<rparr>"

text \<open>An outside world around a given relay: every name resolves, no file exists.\<close>

definition example_outside ::
  "(nat \<Rightarrow> env_vars \<Rightarrow> message \<Rightarrow> smtp_error option) \<Rightarrow> outside" where
  "example_outside relay =
     \<lparr> smtp = relay, resolves = (\<lambda>d. True), clock = (\<lambda>k. example_moment),
       html_to_plain_text = (\<lambda>h. h), path_exists = (\<lambda>p. False), read_bytes = (\<lambda>p. []) \<rparr>"

text \<open>
  Command-line arguments of a dry run that also updates the contacts, and the three
  contacts of a small list: a good one, one whose address is no address, and one that an
  earlier run has marked as sent.
\<close>

definition example_args :: args where
  "example_args =
     \<lparr> arg_csv = ''contacts.csv'', arg_attachment = None, arg_sleep = 3, arg_dry_run = True,
       arg_max = Some 5, arg_from_row = 0, arg_update_contacts = True,
       arg_log = ''outbox_log.csv'' \<rparr>"

definition contact_a :: contact where
  "contact_a =
     \<lparr> email = ''a@good.com'', hotel_name = ''Hotel Uno'', city = ''Roma'',
       contact_name = ''Mario Rossi'', contact_notes = [], status = [], sent_at = [] \<rparr>"

definition contact_bad :: contact where
  "contact_bad =
     \<lparr> email = ''not-an-email'', hotel_name = ''Hotel Due'', city = ''Milano'',
       contact_name = [], contact_notes = [], status = [], sent_at = [] \<rparr>"

definition contact_b :: contact where
  "contact_b =
     \<lparr> email = ''b@good.com'', hotel_name = ''Hotel Tre'', city = ''Torino'',
       contact_name = ''Luigi'', contact_notes = [], status = '' Sent'', sent_at = [] \<rparr>"

definition example_contacts :: "contact list" where
  "example_contacts = [contact_a, contact_bad, contact_b]"



definition fresh_world :: world where
  "fresh_world = \<lparr> trace = [], ticks = 0 \<rparr>"

text \<open>
  A relay that refuses every login the way Gmail does:
  \<^verbatim>\<open>str(SMTPAuthenticationError(535, b'5.7.8 Username and Password not accepted'))\<close>.
\<close>

definition login_refused :: string where
  "login_refused =
     ''(535, b'' @ [CHR 0x27] @ ''5.7.8 Username and Password not accepted'' @ [CHR 0x27] @ '')''"

definition refusing_relay :: "nat \<Rightarrow> env_vars \<Rightarrow> message \<Rightarrow> smtp_error option" where
  "refusing_relay k env msg = Some (SMTPAuthenticationError login_refused)"

text \<open>
  A relay that refuses the recipient:
  \<^verbatim>\<open>str(SMTPRecipientsRefused({'info@hotel.example': (550, b'5.1.1 User unknown')}))\<close>.
\<close>

definition mailbox_unknown :: string where
  "mailbox_unknown =
     ''{'' @ [CHR 0x27] @ ''info@hotel.example'' @ [CHR 0x27] @ '': (550, b'' @ [CHR 0x27] @
     ''5.1.1 User unknown'' @ [CHR 0x27] @ '')}''"

definition rejecting_relay :: "nat \<Rightarrow> env_vars \<Rightarrow> message \<Rightarrow> smtp_error option" where
  "rejecting_relay k env msg = Some (SMTPRecipientsRefused mailbox_unknown)"


definition down_relay :: "nat \<Rightarrow> env_vars \<Rightarrow> message \<Rightarrow> smtp_error option" where
  "down_relay k env msg = Some (ConnectionError ''[Errno 111] Connection refused'')"

section \<open>Properties of the delivery engine\<close>

lemma send_email_dry:
  "send_email out env msg True w = (Inr (True, ''DRY RUN - Email not sent''), w)"
  by (simp add: send_email_def)

lemma send_email_live:
  "send_email out env msg False w =
     (case smtp out (sessions w) env msg of
        None \<Rightarrow> Inr (True, ''Email sent successfully'')
      | Some err \<Rightarrow> describe_failure err,
      emit (SmtpSession (use_ssl env) env msg) w)"
  by (simp add: send_email_def Let_def split: option.splits)

lemma sessions_emit_session [simp]:
  "sessions (emit (SmtpSession b env msg) w) = Suc (sessions w)"
  by (simp add: sessions_def emit_def)

lemma sessions_emit_sleep [simp]: "sessions (emit (Sleep n) w) = sessions w"
  by (simp add: sessions_def emit_def)


lemma upt_nat_Cons: "1 \<le> n \<Longrightarrow> [0 ..< nat n] = 0 # [1 ..< nat n]"
  by (simp add: upt_conv_Cons)

subsection \<open>Dry run\<close>

text \<open>
  C7.  In dry-run mode \<^verbatim>\<open>send_email\<close> returns success with the marker
  \<^verbatim>\<open>DRY RUN - Email not sent\<close> and leaves the world as it was: no SMTP session is opened.
  So \<^verbatim>\<open>send_email_with_retry\<close> (with at least one attempt allowed) returns that success
  from its first attempt, again with the world unchanged: no session and no sleep.
\<close>

theorem dry_run_sends_nothing:
  "send_email out env msg True w = (Inr (True, ''DRY RUN - Email not sent''), w) \<and>
   (1 \<le> max_retries \<longrightarrow>
      send_email_with_retry out env msg True max_retries w
        = (Inr (True, ''DRY RUN - Email not sent''), w))"
  by (simp add: send_email_with_retry_def upt_nat_Cons send_email_dry)

theorem dry_run_sends_nothing_witness:
  "(1::int) \<le> 3 \<and>
   send_email_with_retry (example_outside refusing_relay) example_env example_msg True 3
     fresh_world = (Inr (True, ''DRY RUN - Email not sent''), fresh_world)"
  using dry_run_sends_nothing
    [of "example_outside refusing_relay" example_env example_msg fresh_world 3]
  by simp

subsection \<open>The attempt loop always returns from inside\<close>

lemma retry_loop_returns:
  "xs \<noteq> [] \<Longrightarrow> max_retries - 1 \<le> int (last xs) \<Longrightarrow>
   fst (retry_loop out env msg dry_run max_retries xs w) \<noteq> FellThrough"
proof (induction xs arbitrary: w)
  case Nil
  then show ?case by simp
next
  case (Cons x xs)
  show ?case
  proof (cases "xs = []")
    case True
    with Cons.prems show ?thesis
      by (auto simp: sleep_def split: prod.splits sum.splits)
  next
    case False
    with Cons.prems have "max_retries - 1 \<le> int (last xs)" by simp
    with Cons.IH False
    have "\<And>w. fst (retry_loop out env msg dry_run max_retries xs w) \<noteq> FellThrough"
      by blast
    then show ?thesis
      by (auto simp: sleep_def split: prod.splits sum.splits)
  qed
qed

lemma send_email_raises:
  "send_email out env msg dry_run w = (Inl e, w1) \<Longrightarrow>
   \<exists>k t. smtp out k env msg = Some (Uncaught t)"
  apply (cases dry_run)
   apply (simp add: send_email_dry)
  apply (simp add: send_email_live split: option.splits)
  subgoal for err by (cases err) auto
  done

lemma retry_loop_returned:
  "xs \<noteq> [] \<Longrightarrow> max_retries - 1 \<le> int (last xs) \<Longrightarrow>
   \<forall>k t. smtp out k env msg \<noteq> Some (Uncaught t) \<Longrightarrow>
   \<exists>r. fst (retry_loop out env msg dry_run max_retries xs w) = Returned r"
proof (induction xs arbitrary: w)
  case Nil
  then show ?case by simp
next
  case (Cons x xs)
  have noraise: "\<And>e w1. send_email out env msg dry_run w \<noteq> (Inl e, w1)"
    using Cons.prems(3) send_email_raises by blast
  show ?case
  proof (cases "xs = []")
    case True
    with Cons.prems noraise show ?thesis
      by (auto simp: sleep_def split: prod.splits sum.splits)
  next
    case False
    with Cons.prems have "max_retries - 1 \<le> int (last xs)" by simp
    with Cons.IH False Cons.prems(3)
    have "\<And>w. \<exists>r. fst (retry_loop out env msg dry_run max_retries xs w) = Returned r"
      by blast
    with noraise show ?thesis
      by (auto simp: sleep_def split: prod.splits sum.splits)
  qed
qed

lemma not_retried_max: "\<not> not_retried ''Max retries exceeded''"
  by code_simp

lemma retry_loop_value:
  "retry_loop out env msg dry_run max_retries xs w = (Returned r, w') \<Longrightarrow>
   r \<noteq> (False, ''Max retries exceeded'')"
proof (induction xs arbitrary: w)
  case Nil
  then show ?case by simp
next
  case (Cons x xs)
  then show ?case using not_retried_max
    by (auto simp: sleep_def not_retried_def split: prod.splits sum.splits if_splits)
qed

text \<open>
  C9.  With \<^verbatim>\<open>max_retries >= 1\<close> the attempt loop of \<^verbatim>\<open>send_email_with_retry\<close> never
  runs out: it is left by one of its own \<^verbatim>\<open>return\<close> statements (or by an exception
  that \<^verbatim>\<open>send_email\<close> lets through), so the statement after the loop is not reached and
  its value \<^verbatim>\<open>(False, "Max retries exceeded")\<close> is never the result.  When no session
  ends with an uncaught exception, the loop is left by a \<^verbatim>\<open>return\<close>.
\<close>

theorem trailing_return_unreachable:
  assumes "1 \<le> max_retries"
  shows "fst (retry_loop out env msg dry_run max_retries [0 ..< nat max_retries] w)
           \<noteq> FellThrough \<and>
         fst (send_email_with_retry out env msg dry_run max_retries w)
           \<noteq> Inr (False, ''Max retries exceeded'') \<and>
         ((\<forall>k t. smtp out k env msg \<noteq> Some (Uncaught t)) \<longrightarrow>
            (\<exists>r. fst (retry_loop out env msg dry_run max_retries [0 ..< nat max_retries] w)
                   = Returned r))"
proof -
  let ?xs = "[0 ..< nat max_retries]"
  from assms have ne: "?xs \<noteq> []" by simp
  from assms have lst: "max_retries - 1 \<le> int (last ?xs)"
    by simp
  have a: "fst (retry_loop out env msg dry_run max_retries ?xs w) \<noteq> FellThrough"
    using ne lst by (rule retry_loop_returns)
  obtain x w' where x: "retry_loop out env msg dry_run max_retries ?xs w = (x, w')"
    by (cases "retry_loop out env msg dry_run max_retries ?xs w") blast
  have b: "fst (send_email_with_retry out env msg dry_run max_retries w)
             \<noteq> Inr (False, ''Max retries exceeded'')"
  proof (cases x)
    case (Returned r)
    with x have "r \<noteq> (False, ''Max retries exceeded'')"
      using retry_loop_value by blast
    with x Returned show ?thesis by (simp add: send_email_with_retry_def)
  next
    case (Raised e)
    with x show ?thesis by (simp add: send_email_with_retry_def)
  next
    case FellThrough
    with a x show ?thesis by simp
  qed
  have c: "(\<forall>k t. smtp out k env msg \<noteq> Some (Uncaught t)) \<longrightarrow>
           (\<exists>r. fst (retry_loop out env msg dry_run max_retries ?xs w) = Returned r)"
    using retry_loop_returned [OF ne lst] by blast
  from a b c show ?thesis by blast
qed

theorem trailing_return_unreachable_witness:
  "(1::int) \<le> 3 \<and>
   (\<forall>k t. smtp (example_outside down_relay) k example_env example_msg \<noteq> Some (Uncaught t)) \<and>
   fst (send_email_with_retry (example_outside down_relay) example_env example_msg False 3
          fresh_world) \<noteq> Inr (False, ''Max retries exceeded'') \<and>
   (\<exists>r. fst (retry_loop (example_outside down_relay) example_env example_msg False 3
               [0 ..< nat 3] fresh_world) = Returned r)"
proof -
  have h: "(1::int) \<le> 3" by simp
  have u: "\<forall>k t. smtp (example_outside down_relay) k example_env example_msg
             \<noteq> Some (Uncaught t)"
    by (simp add: example_outside_def down_relay_def)
  from trailing_return_unreachable
         [OF h, of "example_outside down_relay" example_env example_msg False fresh_world]
       h u
  show ?thesis by blast
qed

subsection \<open>Failures that are meant to end the loop at once\<close>

text \<open>
  C1.  The claim: an authentication failure or a rejected recipient makes
  \<^verbatim>\<open>send_email_with_retry\<close> return after one attempt, without a sleep.  The code decides
  by looking for \<^verbatim>\<open>Authentication\<close>, \<^verbatim>\<open>auth\<close>, \<^verbatim>\<open>recipient\<close> and \<^verbatim>\<open>address\<close> in
  the detail, and the details that \<^verbatim>\<open>send_email\<close> writes for these two failures are
  Spanish and contain none of the four words.  With a relay that refuses every login in
  Gmail's words, and with one that refuses the recipient, the three attempts are all
  made, with sleeps of 5 and 10 seconds between them.
\<close>

theorem permanent_failures_are_retried:
  "send_email_with_retry (example_outside refusing_relay) example_env example_msg False 3
     fresh_world
   = (Inr (False,
        ''Failed after 3 attempts: Error de '' @ autenticacion @ '' SMTP: '' @ login_refused),
      \<lparr> trace = [SmtpSession True example_env example_msg, Sleep 5,
                  SmtpSession True example_env example_msg, Sleep 10,
                  SmtpSession True example_env example_msg], ticks = 0 \<rparr>) \<and>
   send_email_with_retry (example_outside rejecting_relay) example_env example_msg False 3
     fresh_world
   = (Inr (False,
        ''Failed after 3 attempts: Error: destinatarios rechazados: '' @ mailbox_unknown),
      \<lparr> trace = [SmtpSession True example_env example_msg, Sleep 5,
                  SmtpSession True example_env example_msg, Sleep 10,
                  SmtpSession True example_env example_msg], ticks = 0 \<rparr>)"
  by code_simp

subsection \<open>Back-off between attempts\<close>











section \<open>Properties of the contact filtering\<close>

lemma filter_loop_skip:
  "skip_status c \<Longrightarrow>
   filter_loop out a (rows @ (idx, c) # rest) sel w = filter_loop out a (rows @ rest) sel w"
proof (induction rows arbitrary: sel w)
  case Nil
  then show ?case by simp
next
  case (Cons r rows)
  obtain j d where r: "r = (j, d)" by (cases r)
  show ?case
    unfolding r using Cons by (simp split: prod.splits)
qed

lemma filter_loop_selected:
  "(j, c) \<in> set (fst (filter_loop out a rows sel w)) \<Longrightarrow>
   (j, c) \<in> set sel \<or>
   ((j, c) \<in> set rows \<and> \<not> int j < arg_from_row a \<and> \<not> skip_status c \<and>
    validate_email out (email c))"
proof (induction out a rows sel w rule: filter_loop.induct)
  case (1 out a sel w)
  then show ?case by simp
next
  case (2 out a idx d rows sel w)
  then show ?case
    by (auto split: if_splits prod.splits)
qed


text \<open>
  C5.  A row whose status, trimmed and in upper case, is \<^verbatim>\<open>SENT\<close> or \<^verbatim>\<open>SKIP\<close> is
  passed over by the filtering loop: the loop ends with the same selection and the same
  world (so with the same log rows) as on the rows without it, and the contact is in no
  selection that the filtering of a contact list returns.
\<close>

theorem sent_and_skip_rows_are_passed_over:
  "skip_status c \<Longrightarrow>
   filter_loop out a (rows @ (idx, c) # rest) sel w = filter_loop out a (rows @ rest) sel w \<and>
   (\<forall>j. (j, c) \<notin> set (fst (filter_contacts out a loaded w)))"
  using filter_loop_skip [of c out a rows idx rest sel w]
    filter_loop_selected [of _ c out a "enumerate 0 loaded" "[]" w]
  by (auto simp: filter_contacts_def)

lemma skip_b: "skip_status contact_b" by code_simp

theorem sent_and_skip_rows_are_passed_over_witness:
  "skip_status contact_b \<and>
   filter_contacts (example_outside refusing_relay) example_args example_contacts fresh_world
     = filter_loop (example_outside refusing_relay) example_args
         [(0, contact_a), (1, contact_bad)] [] fresh_world \<and>
   (\<forall>j. (j, contact_b) \<notin> set (fst (filter_contacts (example_outside refusing_relay)
           example_args example_contacts fresh_world)))"
  using sent_and_skip_rows_are_passed_over [OF skip_b, of "example_outside refusing_relay" example_args
              "[(0, contact_a), (1, contact_bad)]" 2 "[]" "[]" fresh_world example_contacts]
    skip_b
  by (simp add: filter_contacts_def example_contacts_def enumerate_eq_zip upt_conv_Cons)


subsection \<open>Counters of a run\<close>




subsection \<open>Invalid addresses\<close>




lemma a_valid: "validate_email (example_outside refusing_relay) (email contact_a)"
  by code_simp


subsection \<open>No contact to send to\<close>

text \<open>
  C2, as the claim states it: when no contact qualifies the process ends with a non-zero
  exit status.  The code prints a warning and calls \<^verbatim>\<open>sys.exit(0)\<close>: with a list whose
  only contact is marked as sent, the selection is empty and the exit status is 0.
\<close>

theorem no_contacts_exit_status_zero:
  "fst (filter_contacts (example_outside refusing_relay) example_args [contact_b] fresh_world)
     = [] \<and>
   exit_status (run_ending (main (example_outside refusing_relay) example_args example_env
     ''Hello {{hotel_name}}'' ''<p>Hi {{contact_name}}</p>'' [contact_b] fresh_world)) = 0"
  using skip_b by (simp add: main_def filter_contacts_def example_args_def enumerate_eq_zip)

text \<open>
  C2, amended.  When the attachment check passes and the filtering selects no contact,
  the run ends with \<^verbatim>\<open>sys.exit(0)\<close>, that is with exit status zero; the contacts are as
  loaded and nothing has happened after the filtering (no session, no sleep, no file
  written).
\<close>

theorem no_contacts_ends_with_exit_zero:
  assumes "case arg_attachment a of None \<Rightarrow> True | Some path \<Rightarrow> path = [] \<or> path_exists out path"
    and "fst (filter_contacts out a loaded w0) = []"
  shows "run_ending (main out a env subject_template html_template loaded w0) = Exit 0 \<and>
         exit_status (run_ending (main out a env subject_template html_template loaded w0)) = 0 \<and>
         contacts (final (main out a env subject_template html_template loaded w0)) = loaded \<and>
         run_world (final (main out a env subject_template html_template loaded w0))
           = snd (filter_contacts out a loaded w0)"
  using assms
  by (cases "filter_contacts out a loaded w0")
     (auto simp: main_def Let_def split: option.splits)

theorem no_contacts_ends_with_exit_zero_witness:
  "(case arg_attachment example_args of None \<Rightarrow> True
    | Some path \<Rightarrow> path = [] \<or> path_exists (example_outside refusing_relay) path) \<and>
   fst (filter_contacts (example_outside refusing_relay) example_args [contact_b] fresh_world)
     = [] \<and>
   run_ending (main (example_outside refusing_relay) example_args example_env
     ''Hello {{hotel_name}}'' ''<p>Hi {{contact_name}}</p>'' [contact_b] fresh_world) = Exit 0"
proof -
  have a: "case arg_attachment example_args of None \<Rightarrow> True
    | Some path \<Rightarrow> path = [] \<or> path_exists (example_outside refusing_relay) path"
    by (simp add: example_args_def)
  have f: "fst (filter_contacts (example_outside refusing_relay) example_args [contact_b]
             fresh_world) = []"
    using skip_b by (simp add: filter_contacts_def enumerate_eq_zip)
  from no_contacts_ends_with_exit_zero [OF a f] a f show ?thesis by blast
qed

section \<open>Properties of the merge orchestrator\<close>

subsection \<open>A dry run that updates the contacts\<close>










subsection \<open>The generic greeting\<close>

text \<open>
  C8.  The builder gives the recipient a display name only when the name it is passed is
  non-empty.  For a contact whose \<^verbatim>\<open>contact_name\<close> is empty after trimming, the render
  context maps \<^verbatim>\<open>contact_name\<close> to the generic greeting, the subject and the HTML body
  of the message are the templates rendered with that context, and the \<^verbatim>\<open>To\<close> header
  of the message is the bare address.
\<close>

theorem generic_greeting_not_in_to_header:
  "msg_to (create_email_message out env subject html_body plain_body to_email to_name
             attachment_path)
     = (if to_name \<noteq> [] then Named to_name to_email else Bare to_email) \<and>
   (strip (contact_name c) = [] \<longrightarrow>
      map_of (contact_context env today c) ''contact_name'' = Some generic_greeting \<and>
      msg_subject (contact_message out a env subject_template html_template today c)
        = render_template subject_template (contact_context env today c) \<and>
      msg_html (contact_message out a env subject_template html_template today c)
        = render_template html_template (contact_context env today c) \<and>
      msg_to (contact_message out a env subject_template html_template today c)
        = Bare (email c))"
  by (simp add: create_email_message_def contact_message_def contact_context_def
        greeting_name_def formataddr_def Let_def)

lemma example_render:
  "render_template ''<p>Gentile {{contact_name}},</p>''
     (contact_context example_env ''10/05/2025'' contact_bad)
   = ''<p>Gentile Responsabile delle risorse umane,</p>''"
  by code_simp

lemma bad_has_no_name: "strip (contact_name contact_bad) = []"
  by code_simp

theorem generic_greeting_not_in_to_header_witness:
  "strip (contact_name contact_bad) = [] \<and>
   msg_html (contact_message (example_outside refusing_relay) example_args example_env
     ''Candidatura'' ''<p>Gentile {{contact_name}},</p>'' ''10/05/2025'' contact_bad)
     = ''<p>Gentile Responsabile delle risorse umane,</p>'' \<and>
   msg_to (contact_message (example_outside refusing_relay) example_args example_env
     ''Candidatura'' ''<p>Gentile {{contact_name}},</p>'' ''10/05/2025'' contact_bad)
     = Bare ''not-an-email''"
proof -
  have e: "email contact_bad = ''not-an-email''" by (simp add: contact_bad_def)
  from generic_greeting_not_in_to_header [of "example_outside refusing_relay" example_env "[]" "[]" "[]" "[]" "[]" None
              contact_bad "''10/05/2025''" example_args "''Candidatura''"
              "''<p>Gentile {{contact_name}},</p>''"]
    bad_has_no_name
  show ?thesis by (simp only: example_render e)
qed

section \<open>Properties of the template renderer\<close>























end
